theory Spec2Isabelle
  imports Main
begin

section \<open>The rating store (db.js)\<close>

text \<open>
  The store keeps two SQLite tables. \<open>song_ratings\<close> has one row per song key
  (\<open>song_key TEXT NOT NULL UNIQUE\<close>), \<open>user_ratings\<close> one row per pair of song key and
  user id (\<open>UNIQUE(song_key, user_id)\<close>). A table with a unique, non-null key is a map
  from the key to the remaining columns, so every state of the model satisfies the
  constraints the storage engine enforces. The \<open>AUTOINCREMENT\<close> row ids are kept with
  the largest id handed out so far; \<open>CURRENT_TIMESTAMP\<close> is the argument \<open>now\<close> of the
  statements that read the clock. The counts are integers without a bound. The table
  \<open>items\<close> of the same file is neither read nor written by the rating functions and is
  left out.

  An argument of a store function is a JavaScript string or \<open>null\<close>: \<open>Some s\<close> is the
  string \<open>s\<close>, \<open>None\<close> is \<open>null\<close>, which is bound to a statement as SQL \<open>NULL\<close>.
\<close>

type_synonym jstext = "string option"
type_synonym timestamp = nat

record song_row =
  row_id :: nat
  artist :: string
  title :: string
  thumbs_up :: int
  thumbs_down :: int
  created_at :: timestamp
  updated_at :: timestamp

record user_row =
  vote_id :: nat
  rating_type :: string
  voted_at :: timestamp

record database =
  song_ratings :: "string \<rightharpoonup> song_row"
  song_ratings_seq :: nat
  user_ratings :: "(string \<times> string) \<rightharpoonup> user_row"
  user_ratings_seq :: nat

text \<open>The state after \<open>initDB\<close> on a fresh file: both tables exist and are empty.\<close>

definition initDB :: database where
  "initDB = \<lparr>song_ratings = Map.empty, song_ratings_seq = 0,
             user_ratings = Map.empty, user_ratings_seq = 0\<rparr>"

datatype sql_error = NotNullConstraint | UniqueConstraint

subsection \<open>The SQL statements\<close>

text \<open>
  \<open>SELECT * FROM song_ratings WHERE song_key = ?\<close>, read with \<open>get\<close>: the row, or
  nothing. A comparison with \<open>NULL\<close> is never true, so a \<open>null\<close> key finds no row.
\<close>

definition select_song :: "jstext \<Rightarrow> database \<Rightarrow> (string \<times> song_row) option" where
  "select_song songKey db =
     (case songKey of
        None \<Rightarrow> None
      | Some k \<Rightarrow> map_option (Pair k) (song_ratings db k))"

text \<open>\<open>SELECT ... FROM user_ratings WHERE song_key = ? AND user_id = ?\<close>, read with \<open>get\<close>.\<close>

definition select_user_rating :: "jstext \<Rightarrow> jstext \<Rightarrow> database \<Rightarrow> user_row option" where
  "select_user_rating songKey userId db =
     (case (songKey, userId) of
        (Some k, Some u) \<Rightarrow> user_ratings db (k, u)
      | _ \<Rightarrow> None)"

text \<open>
  \<open>INSERT INTO song_ratings (song_key, artist, title, thumbs_up, thumbs_down)
  VALUES (?, ?, ?, 0, 0)\<close>. The statement fails, changing nothing, when a \<open>NOT NULL\<close>
  column would get \<open>NULL\<close> or the key is taken. A statement returns the error it threw,
  if any, and the database it leaves.
\<close>

definition insert_song ::
  "timestamp \<Rightarrow> jstext \<Rightarrow> jstext \<Rightarrow> jstext \<Rightarrow> database \<Rightarrow> sql_error option \<times> database" where
  "insert_song now songKey artist' title' db =
     (case (songKey, artist', title') of
        (Some k, Some a, Some t) \<Rightarrow>
          (if song_ratings db k \<noteq> None then (Some UniqueConstraint, db)
           else (None,
                 db\<lparr>song_ratings := (song_ratings db)(k \<mapsto>
                        \<lparr>row_id = Suc (song_ratings_seq db), artist = a, title = t,
                         thumbs_up = 0, thumbs_down = 0,
                         created_at = now, updated_at = now\<rparr>),
                    song_ratings_seq := Suc (song_ratings_seq db)\<rparr>))
      | _ \<Rightarrow> (Some NotNullConstraint, db))"

text \<open>
  \<open>UPDATE song_ratings SET field = field + 1, updated_at = CURRENT_TIMESTAMP
  WHERE song_key = ?\<close>, where \<open>field\<close> is one of the two count columns. It changes the
  rows that match, possibly none, and does not fail.
\<close>

datatype field = Thumbs_up | Thumbs_down

definition update_song :: "timestamp \<Rightarrow> field \<Rightarrow> jstext \<Rightarrow> database \<Rightarrow> database" where
  "update_song now fld songKey db =
     (case select_song songKey db of
        None \<Rightarrow> db
      | Some (k, row) \<Rightarrow>
          db\<lparr>song_ratings := (song_ratings db)(k \<mapsto>
                (case fld of
                   Thumbs_up \<Rightarrow> row\<lparr>thumbs_up := thumbs_up row + 1, updated_at := now\<rparr>
                 | Thumbs_down \<Rightarrow> row\<lparr>thumbs_down := thumbs_down row + 1, updated_at := now\<rparr>))\<rparr>)"

text \<open>\<open>INSERT INTO user_ratings (song_key, user_id, rating_type) VALUES (?, ?, ?)\<close>.\<close>

definition insert_user_rating ::
  "timestamp \<Rightarrow> jstext \<Rightarrow> jstext \<Rightarrow> jstext \<Rightarrow> database \<Rightarrow> sql_error option \<times> database" where
  "insert_user_rating now songKey userId ratingType db =
     (case (songKey, userId, ratingType) of
        (Some k, Some u, Some r) \<Rightarrow>
          (if user_ratings db (k, u) \<noteq> None then (Some UniqueConstraint, db)
           else (None,
                 db\<lparr>user_ratings := (user_ratings db)((k, u) \<mapsto>
                        \<lparr>vote_id = Suc (user_ratings_seq db), rating_type = r,
                         voted_at = now\<rparr>),
                    user_ratings_seq := Suc (user_ratings_seq db)\<rparr>))
      | _ \<Rightarrow> (Some NotNullConstraint, db))"

text \<open>
  \<open>db.transaction(body)()\<close>: the body runs inside \<open>BEGIN\<close> ... \<open>COMMIT\<close>; when it throws,
  the engine rolls back to the database the transaction started from and the error is
  thrown again.
\<close>

definition transaction ::
  "(database \<Rightarrow> sql_error option \<times> database) \<Rightarrow> database \<Rightarrow> sql_error option \<times> database" where
  "transaction body db =
     (case body db of
        (Some e, _) \<Rightarrow> (Some e, db)
      | (None, db') \<Rightarrow> (None, db'))"

subsection \<open>The exported functions\<close>

text \<open>
  What \<open>getSongRatings\<close> returns: the row object of \<open>SELECT *\<close> (the key and the other
  columns), or the object literal \<open>{ thumbs_up: 0, thumbs_down: 0 }\<close>.
\<close>

datatype ratings = Row string song_row | Counts int int

fun ratings_thumbs_up :: "ratings \<Rightarrow> int" where
  "ratings_thumbs_up (Row k row) = thumbs_up row"
| "ratings_thumbs_up (Counts up down) = up"

fun ratings_thumbs_down :: "ratings \<Rightarrow> int" where
  "ratings_thumbs_down (Row k row) = thumbs_down row"
| "ratings_thumbs_down (Counts up down) = down"

definition getSongRatings :: "jstext \<Rightarrow> database \<Rightarrow> ratings" where
  "getSongRatings songKey db =
     (case select_song songKey db of
        Some (k, row) \<Rightarrow> Row k row
      | None \<Rightarrow> Counts 0 0)"

text \<open>
  The body of the transaction in \<open>addOrUpdateRating\<close>. It returns the database as the
  statements executed so far have left it, also when a later statement throws.
\<close>

definition rating_steps ::
  "timestamp \<Rightarrow> jstext \<Rightarrow> jstext \<Rightarrow> jstext \<Rightarrow> jstext \<Rightarrow> jstext \<Rightarrow> database
     \<Rightarrow> sql_error option \<times> database" where
  "rating_steps now songKey artist' title' ratingType userId db =
     (case (case select_song songKey db of
              None \<Rightarrow> insert_song now songKey artist' title' db
            | Some songRating \<Rightarrow> (None, db)) of
        (Some e, db1) \<Rightarrow> (Some e, db1)
      | (None, db1) \<Rightarrow>
          (let fld = (if ratingType = Some ''up'' then Thumbs_up else Thumbs_down);
               db2 = update_song now fld songKey db1
           in insert_user_rating now songKey userId ratingType db2))"

text \<open>
  What \<open>addOrUpdateRating\<close> returns: the object \<open>{ error: message }\<close> or the ratings of the
  song. A thrown storage error is the left summand of the result.
\<close>

datatype reply = ErrorObj string | RatingsObj ratings

definition addOrUpdateRating ::
  "timestamp \<Rightarrow> jstext \<Rightarrow> jstext \<Rightarrow> jstext \<Rightarrow> jstext \<Rightarrow> jstext \<Rightarrow> database
     \<Rightarrow> (sql_error + reply) \<times> database" where
  "addOrUpdateRating now songKey artist' title' ratingType userId db =
     (case select_user_rating songKey userId db of
        Some existingRating \<Rightarrow> (Inr (ErrorObj ''User has already rated this song''), db)
      | None \<Rightarrow>
          (case transaction (rating_steps now songKey artist' title' ratingType userId) db of
             (Some e, db') \<Rightarrow> (Inl e, db')
           | (None, db') \<Rightarrow> (Inr (RatingsObj (getSongRatings songKey db')), db')))"

text \<open>\<open>getUserRating\<close>: the recorded rating type, or \<open>null\<close>.\<close>

definition getUserRating :: "jstext \<Rightarrow> jstext \<Rightarrow> database \<Rightarrow> string option" where
  "getUserRating songKey userId db =
     (case select_user_rating songKey userId db of
        Some result \<Rightarrow> Some (rating_type result)
      | None \<Rightarrow> None)"

subsection \<open>Sequences of store operations\<close>

text \<open>
  The three operations the store exports for ratings, as values, and a client that runs
  a list of them one after the other. The two reads execute a \<open>SELECT\<close> only and leave
  the database as it is.
\<close>

datatype op =
    GetSongRatings jstext
  | AddOrUpdateRating timestamp jstext jstext jstext jstext jstext
  | GetUserRating jstext jstext

datatype op_result =
    SongRatings ratings
  | Rated "sql_error + reply"
  | UserRating "string option"

fun exec_op :: "op \<Rightarrow> database \<Rightarrow> op_result \<times> database" where
  "exec_op (GetSongRatings songKey) db = (SongRatings (getSongRatings songKey db), db)"
| "exec_op (AddOrUpdateRating now songKey artist' title' ratingType userId) db =
     (case addOrUpdateRating now songKey artist' title' ratingType userId db of
        (out, db') \<Rightarrow> (Rated out, db'))"
| "exec_op (GetUserRating songKey userId) db = (UserRating (getUserRating songKey userId db), db)"

fun exec_ops :: "op list \<Rightarrow> database \<Rightarrow> op_result list \<times> database" where
  "exec_ops [] db = ([], db)"
| "exec_ops (c # cs) db =
     (case exec_op c db of
        (x, db1) \<Rightarrow> (case exec_ops cs db1 of (xs, db2) \<Rightarrow> (x # xs, db2)))"

text \<open>The databases the store can be in: the fresh one, and what an operation leaves.\<close>

inductive reachable :: "database \<Rightarrow> bool" where
  fresh: "reachable initDB"
| step: "reachable db \<Longrightarrow> reachable (snd (exec_op c db))"

text \<open>A vote \<open>up\<close> on the song \<open>k\<close>, by a user, with the strings the caller passes.\<close>

record voter =
  voter_time :: timestamp
  voter_artist :: string
  voter_title :: string
  voter_id :: string

definition up_vote :: "string \<Rightarrow> voter \<Rightarrow> op" where
  "up_vote k v =
     AddOrUpdateRating (voter_time v) (Some k) (Some (voter_artist v)) (Some (voter_title v))
       (Some ''up'') (Some (voter_id v))"

text \<open>
  The database after the first vote of the test suite: \<open>user_1\<close> votes \<open>up\<close> on the song
  of key \<open>QXJ0aXN0\<close> at time 5.
\<close>

definition one_vote_db :: database where
  "one_vote_db =
     \<lparr>song_ratings = [''QXJ0aXN0'' \<mapsto>
        \<lparr>row_id = 1, artist = ''Artist'', title = ''Title'', thumbs_up = 1, thumbs_down = 0,
         created_at = 5, updated_at = 5\<rparr>],
      song_ratings_seq = 1,
      user_ratings = [(''QXJ0aXN0'', ''user_1'') \<mapsto>
        \<lparr>vote_id = 1, rating_type = ''up'', voted_at = 5\<rparr>],
      user_ratings_seq = 1\<rparr>"

text \<open>Three users, each with an id of their own.\<close>

definition three_voters :: "voter list" where
  "three_voters =
     [\<lparr>voter_time = 5, voter_artist = ''Artist'', voter_title = ''Title'', voter_id = ''user_1''\<rparr>,
      \<lparr>voter_time = 6, voter_artist = ''Artist'', voter_title = ''Title'', voter_id = ''user_2''\<rparr>,
      \<lparr>voter_time = 8, voter_artist = ''Artist'', voter_title = ''Title'', voter_id = ''user_3''\<rparr>]"

section \<open>The rating API (server.js)\<close>

text \<open>
  The handler of \<open>POST /api/ratings\<close> destructures \<open>req.body\<close> into five fields.
  A field is absent (\<open>undefined\<close>) or holds a JSON value; of an object or an array only
  its being one matters to the handler, of a number only whether it is zero.
\<close>

datatype jsval = JUndefined | JNull | JBool bool | JNum int | JStr string | JObject

text \<open>What \<open>!v\<close> negates: \<open>undefined\<close>, \<open>null\<close>, \<open>false\<close>, \<open>0\<close> and \<open>''\<close> are falsy.\<close>

fun truthy :: "jsval \<Rightarrow> bool" where
  "truthy JUndefined = False"
| "truthy JNull = False"
| "truthy (JBool b) = b"
| "truthy (JNum n) = (n \<noteq> 0)"
| "truthy (JStr s) = (s \<noteq> [])"
| "truthy JObject = True"

record rating_body =
  body_songKey :: jsval
  body_artist :: jsval
  body_title :: jsval
  body_ratingType :: jsval
  body_userId :: jsval

datatype payload = ErrorJson string | ReplyJson reply

record response =
  status :: nat
  json :: payload

text \<open>
  \<open>result.error\<close> as a condition: the \<open>error\<close> property of the object the store returned,
  which a ratings object does not have.
\<close>

fun reply_error :: "reply \<Rightarrow> bool" where
  "reply_error (ErrorObj message) = (message \<noteq> [])"
| "reply_error (RatingsObj r) = False"

text \<open>
  The repository runs on Express 5, whose body parsers set \<open>req.body\<close> only when they
  have parsed a body: for a request without a body, or with a content type that neither
  \<open>express.json\<close> nor \<open>express.urlencoded\<close> reads, \<open>req.body\<close> is \<open>undefined\<close>. That is
  \<open>None\<close> below. Destructuring \<open>undefined\<close> throws a \<open>TypeError\<close> with this message; the
  statement stands inside the \<open>try\<close> block of the handler.
\<close>

definition destructure_error :: string where
  "destructure_error = ''Cannot destructure property 'songKey' of 'req.body' as it is undefined.''"

text \<open>
  The handler calls \<open>addOrUpdateRating\<close> of the module it requires as \<open>db\<close>; that function
  is the first argument here, acting on a state of the module's own. It returns an
  object or throws an error with a message (\<open>Inl\<close>), which the handler catches. The
  \<open>catch\<close> block answers every error thrown inside \<open>try\<close> with status 500 and the message
  of the error.
\<close>

type_synonym 'st store_call =
  "jsval \<Rightarrow> jsval \<Rightarrow> jsval \<Rightarrow> jsval \<Rightarrow> jsval \<Rightarrow> 'st \<Rightarrow> (string + reply) \<times> 'st"

definition post_ratings ::
  "'st store_call \<Rightarrow> rating_body option \<Rightarrow> 'st \<Rightarrow> response \<times> 'st" where
  "post_ratings db_addOrUpdateRating req_body st =
     (case req_body of
        None \<Rightarrow> (\<lparr>status = 500, json = ErrorJson destructure_error\<rparr>, st)
      | Some body \<Rightarrow>
          (if \<not> truthy (body_songKey body) \<or> \<not> truthy (body_artist body) \<or>
              \<not> truthy (body_title body) \<or> \<not> truthy (body_ratingType body) \<or>
              \<not> truthy (body_userId body)
           then (\<lparr>status = 400, json = ErrorJson ''Missing required fields''\<rparr>, st)
           else if body_ratingType body \<noteq> JStr ''up'' \<and> body_ratingType body \<noteq> JStr ''down''
           then (\<lparr>status = 400, json = ErrorJson ''Invalid rating type''\<rparr>, st)
           else
             (case db_addOrUpdateRating (body_songKey body) (body_artist body)
                     (body_title body) (body_ratingType body) (body_userId body) st of
                (Inl message, st') \<Rightarrow> (\<lparr>status = 500, json = ErrorJson message\<rparr>, st')
              | (Inr result, st') \<Rightarrow>
                  (if reply_error result
                   then (\<lparr>status = 400, json = ReplyJson result\<rparr>, st')
                   else (\<lparr>status = 200, json = ReplyJson result\<rparr>, st')))))"

text \<open>
  A store function that answers every call with the same object and keeps the list of
  the calls it received, as the mocked module of the API tests does.
\<close>

definition recording_store :: "reply \<Rightarrow> (jsval list) list store_call" where
  "recording_store answer songKey artist' title' ratingType userId calls =
     (Inr answer, calls @ [[songKey, artist', title', ratingType, userId]])"

section \<open>Properties of the rating store\<close>

subsection \<open>One call of \<open>addOrUpdateRating\<close>\<close>

lemma ratings_of_getSongRatings:
  "ratings_thumbs_up (getSongRatings (Some k) db) =
     (case song_ratings db k of None \<Rightarrow> 0 | Some row \<Rightarrow> thumbs_up row)"
  "ratings_thumbs_down (getSongRatings (Some k) db) =
     (case song_ratings db k of None \<Rightarrow> 0 | Some row \<Rightarrow> thumbs_down row)"
  by (simp_all add: getSongRatings_def select_song_def split: option.split)

text \<open>
  The transaction body on a pair of key and user without a vote. The artist and the
  title are needed only when the song has no row yet.
\<close>

lemma rating_steps_fresh:
  assumes "user_ratings db (k, u) = None"
    and "song_ratings db k = None \<Longrightarrow> a \<noteq> None \<and> t \<noteq> None"
  shows "\<exists>row' db'.
     rating_steps now (Some k) a t (Some r) (Some u) db = (None, db') \<and>
     song_ratings db' = (song_ratings db)(k \<mapsto> row') \<and>
     user_ratings db' = (user_ratings db)((k, u) \<mapsto>
        \<lparr>vote_id = Suc (user_ratings_seq db), rating_type = r, voted_at = now\<rparr>) \<and>
     thumbs_up row' = (case song_ratings db k of None \<Rightarrow> 0 | Some row \<Rightarrow> thumbs_up row)
                        + (if r = ''up'' then 1 else 0) \<and>
     thumbs_down row' = (case song_ratings db k of None \<Rightarrow> 0 | Some row \<Rightarrow> thumbs_down row)
                        + (if r = ''up'' then 0 else 1) \<and>
     artist row' = (case song_ratings db k of None \<Rightarrow> the a | Some row \<Rightarrow> artist row) \<and>
     title row' = (case song_ratings db k of None \<Rightarrow> the t | Some row \<Rightarrow> title row)"
proof (cases "song_ratings db k")
  case None
  with assms show ?thesis
    by (cases "r = ''up''")
       (force simp: rating_steps_def select_song_def insert_song_def update_song_def
          insert_user_rating_def)+
next
  case (Some row)
  with assms show ?thesis
    by (cases "r = ''up''")
       (force simp: rating_steps_def select_song_def insert_song_def update_song_def
          insert_user_rating_def)+
qed

lemma vote_effect:
  assumes "user_ratings db (k, u) = None"
    and "song_ratings db k = None \<Longrightarrow> a \<noteq> None \<and> t \<noteq> None"
  shows "\<exists>row' db'.
     addOrUpdateRating now (Some k) a t (Some r) (Some u) db
       = (Inr (RatingsObj (Row k row')), db') \<and>
     song_ratings db' = (song_ratings db)(k \<mapsto> row') \<and>
     user_ratings db' = (user_ratings db)((k, u) \<mapsto>
        \<lparr>vote_id = Suc (user_ratings_seq db), rating_type = r, voted_at = now\<rparr>) \<and>
     thumbs_up row' = (case song_ratings db k of None \<Rightarrow> 0 | Some row \<Rightarrow> thumbs_up row)
                        + (if r = ''up'' then 1 else 0) \<and>
     thumbs_down row' = (case song_ratings db k of None \<Rightarrow> 0 | Some row \<Rightarrow> thumbs_down row)
                        + (if r = ''up'' then 0 else 1) \<and>
     artist row' = (case song_ratings db k of None \<Rightarrow> the a | Some row \<Rightarrow> artist row) \<and>
     title row' = (case song_ratings db k of None \<Rightarrow> the t | Some row \<Rightarrow> title row)"
proof -
  from rating_steps_fresh [OF assms, of now r]
  obtain row' db' where
    st: "rating_steps now (Some k) a t (Some r) (Some u) db = (None, db')"
    and rest: "song_ratings db' = (song_ratings db)(k \<mapsto> row')"
     "user_ratings db' = (user_ratings db)((k, u) \<mapsto>
        \<lparr>vote_id = Suc (user_ratings_seq db), rating_type = r, voted_at = now\<rparr>)"
     "thumbs_up row' = (case song_ratings db k of None \<Rightarrow> 0 | Some row \<Rightarrow> thumbs_up row)
                        + (if r = ''up'' then 1 else 0)"
     "thumbs_down row' = (case song_ratings db k of None \<Rightarrow> 0 | Some row \<Rightarrow> thumbs_down row)
                        + (if r = ''up'' then 0 else 1)"
     "artist row' = (case song_ratings db k of None \<Rightarrow> the a | Some row \<Rightarrow> artist row)"
     "title row' = (case song_ratings db k of None \<Rightarrow> the t | Some row \<Rightarrow> title row)"
    by blast
  have "addOrUpdateRating now (Some k) a t (Some r) (Some u) db
       = (Inr (RatingsObj (Row k row')), db')"
    using assms(1) st rest(1)
    by (simp add: addOrUpdateRating_def select_user_rating_def transaction_def
        getSongRatings_def select_song_def)
  with rest show ?thesis by blast
qed

lemma addOrUpdateRating_error_unchanged:
  "addOrUpdateRating now sk a t r uid db = (Inl e, db') \<Longrightarrow> db' = db"
  by (auto simp: addOrUpdateRating_def transaction_def split: option.splits prod.splits)

text \<open>A call that changes the database had a key, a user and a rating type, and no vote.\<close>

lemma addOrUpdateRating_unchanged_or_voted:
  assumes "addOrUpdateRating now sk a t r uid db = (out, db')"
  shows "db' = db \<or>
    (\<exists>k u rt. sk = Some k \<and> uid = Some u \<and> r = Some rt \<and> user_ratings db (k, u) = None \<and>
       (song_ratings db k = None \<longrightarrow> a \<noteq> None \<and> t \<noteq> None))"
  using assms
  by (auto simp: addOrUpdateRating_def transaction_def rating_steps_def select_user_rating_def
      select_song_def insert_song_def insert_user_rating_def Let_def
      split: option.splits prod.splits if_splits)

lemma vote_changes_both:
  assumes fresh: "user_ratings db (k, u) = None"
    and new: "song_ratings db k = None \<Longrightarrow> a \<noteq> None \<and> t \<noteq> None"
    and res: "addOrUpdateRating now (Some k) a t (Some rt) (Some u) db = (out, db')"
  shows "user_ratings db' (k, u) \<noteq> user_ratings db (k, u) \<and>
     (ratings_thumbs_up (getSongRatings (Some k) db')
         \<noteq> ratings_thumbs_up (getSongRatings (Some k) db) \<or>
      ratings_thumbs_down (getSongRatings (Some k) db')
         \<noteq> ratings_thumbs_down (getSongRatings (Some k) db))"
proof -
  from vote_effect [OF fresh new, of now rt]
  obtain row' db2 where
    res2: "addOrUpdateRating now (Some k) a t (Some rt) (Some u) db
              = (Inr (RatingsObj (Row k row')), db2)"
    and s2: "song_ratings db2 = (song_ratings db)(k \<mapsto> row')"
    and v2: "user_ratings db2 = (user_ratings db)((k, u) \<mapsto>
        \<lparr>vote_id = Suc (user_ratings_seq db), rating_type = rt, voted_at = now\<rparr>)"
    and up: "thumbs_up row' = (case song_ratings db k of None \<Rightarrow> 0 | Some row \<Rightarrow> thumbs_up row)
                        + (if rt = ''up'' then 1 else 0)"
    and down: "thumbs_down row' = (case song_ratings db k of None \<Rightarrow> 0 | Some row \<Rightarrow> thumbs_down row)
                        + (if rt = ''up'' then 0 else 1)"
    by blast
  have eq: "db2 = db'"
    using res res2 by simp
  have a: "user_ratings db' (k, u) \<noteq> user_ratings db (k, u)"
    using v2 fresh unfolding eq by simp
  have b: "ratings_thumbs_up (getSongRatings (Some k) db')
         \<noteq> ratings_thumbs_up (getSongRatings (Some k) db) \<or>
      ratings_thumbs_down (getSongRatings (Some k) db')
         \<noteq> ratings_thumbs_down (getSongRatings (Some k) db)"
  proof (cases "rt = ''up''")
    case True
    have "ratings_thumbs_up (getSongRatings (Some k) db')
         \<noteq> ratings_thumbs_up (getSongRatings (Some k) db)"
      using s2 up True unfolding eq by (simp add: ratings_of_getSongRatings)
    then show ?thesis ..
  next
    case False
    have "ratings_thumbs_down (getSongRatings (Some k) db')
         \<noteq> ratings_thumbs_down (getSongRatings (Some k) db)"
      using s2 down False unfolding eq by (simp add: ratings_of_getSongRatings)
    then show ?thesis ..
  qed
  from a b show ?thesis ..
qed

text \<open>The first vote of the test suite, evaluated.\<close>

lemma first_vote:
  "addOrUpdateRating 5 (Some ''QXJ0aXN0'') (Some ''Artist'') (Some ''Title'') (Some ''up'')
       (Some ''user_1'') initDB
     = (Inr (RatingsObj (Row ''QXJ0aXN0''
          \<lparr>row_id = 1, artist = ''Artist'', title = ''Title'', thumbs_up = 1, thumbs_down = 0,
           created_at = 5, updated_at = 5\<rparr>)),
        one_vote_db)"
  by (simp add: addOrUpdateRating_def select_user_rating_def transaction_def rating_steps_def
      select_song_def insert_song_def update_song_def insert_user_rating_def getSongRatings_def
      initDB_def one_vote_db_def)

text \<open>
  A vote with \<open>null\<close> for the rating type, by a second user, on the song that has a row:
  the body of the transaction increments \<open>thumbs_down\<close> and then fails at the insertion of
  the vote. Run without the transaction it would leave the incremented count behind.
\<close>

lemma rating_steps_partial:
  "rating_steps 9 (Some ''QXJ0aXN0'') (Some ''Artist'') (Some ''Title'') None (Some ''user_2'')
       one_vote_db
     = (Some NotNullConstraint,
        one_vote_db\<lparr>song_ratings := [''QXJ0aXN0'' \<mapsto>
          \<lparr>row_id = 1, artist = ''Artist'', title = ''Title'', thumbs_up = 1, thumbs_down = 1,
           created_at = 5, updated_at = 9\<rparr>]\<rparr>)"
  by (simp add: rating_steps_def select_song_def update_song_def insert_user_rating_def
      one_vote_db_def)

lemma null_rating_type_throws:
  "addOrUpdateRating 9 (Some ''QXJ0aXN0'') (Some ''Artist'') (Some ''Title'') None
       (Some ''user_2'') one_vote_db
     = (Inl NotNullConstraint, one_vote_db)"
proof -
  have "select_user_rating (Some ''QXJ0aXN0'') (Some ''user_2'') one_vote_db = None"
    by (simp add: select_user_rating_def one_vote_db_def)
  then show ?thesis
    by (simp add: addOrUpdateRating_def transaction_def rating_steps_partial)
qed

subsection \<open>Reading the aggregate\<close>

text \<open>
  C5. For a song key without a row, \<open>getSongRatings\<close> returns the counts 0 and 0 (it
  returns a value: the missing row is no error); for a key with a row it returns the
  counts of that row.
\<close>

theorem getSongRatings_counts:
  "ratings_thumbs_up (getSongRatings (Some k) db) =
     (case song_ratings db k of None \<Rightarrow> 0 | Some row \<Rightarrow> thumbs_up row) \<and>
   ratings_thumbs_down (getSongRatings (Some k) db) =
     (case song_ratings db k of None \<Rightarrow> 0 | Some row \<Rightarrow> thumbs_down row)"
  by (simp add: getSongRatings_def select_song_def split: option.split)

subsection \<open>Casting a vote\<close>

text \<open>
  C1. In every database, for strings \<open>k\<close>, \<open>a\<close>, \<open>t\<close>, \<open>u\<close> and a rating type \<open>r\<close> that is
  \<open>up\<close> or \<open>down\<close>: when no vote of \<open>u\<close> on \<open>k\<close> is stored, \<open>addOrUpdateRating\<close> returns the
  row of \<open>k\<close> as it is stored afterwards. That row is the only change of \<open>song_ratings\<close>;
  it carries \<open>a\<close> and \<open>t\<close> when \<open>k\<close> had no row; its counts are the former counts (0 and 0
  when \<open>k\<close> had no row), with \<open>thumbs_up\<close> one higher when \<open>r\<close> is \<open>up\<close> and \<open>thumbs_down\<close> one
  higher when \<open>r\<close> is \<open>down\<close>. The vote of \<open>u\<close> on \<open>k\<close> with type \<open>r\<close> is the only change of
  \<open>user_ratings\<close>.
\<close>

theorem addOrUpdateRating_new_vote:
  assumes "user_ratings db (k, u) = None" and "r = ''up'' \<or> r = ''down''"
  shows "\<exists>row' db'.
    addOrUpdateRating now (Some k) (Some a) (Some t) (Some r) (Some u) db
      = (Inr (RatingsObj (Row k row')), db') \<and>
    song_ratings db' = (song_ratings db)(k \<mapsto> row') \<and>
    (song_ratings db k = None \<longrightarrow> artist row' = a \<and> title row' = t) \<and>
    thumbs_up row'
      = ratings_thumbs_up (getSongRatings (Some k) db) + (if r = ''up'' then 1 else 0) \<and>
    thumbs_down row'
      = ratings_thumbs_down (getSongRatings (Some k) db) + (if r = ''down'' then 1 else 0) \<and>
    user_ratings db' = (user_ratings db)((k, u) \<mapsto>
       \<lparr>vote_id = Suc (user_ratings_seq db), rating_type = r, voted_at = now\<rparr>)"
proof -
  have "song_ratings db k = None \<Longrightarrow> Some a \<noteq> None \<and> Some t \<noteq> None" by simp
  from vote_effect [OF assms(1) this, of now r]
  obtain row' db' where
    "addOrUpdateRating now (Some k) (Some a) (Some t) (Some r) (Some u) db
       = (Inr (RatingsObj (Row k row')), db')"
    "song_ratings db' = (song_ratings db)(k \<mapsto> row')"
    "user_ratings db' = (user_ratings db)((k, u) \<mapsto>
        \<lparr>vote_id = Suc (user_ratings_seq db), rating_type = r, voted_at = now\<rparr>)"
    "thumbs_up row' = (case song_ratings db k of None \<Rightarrow> 0 | Some row \<Rightarrow> thumbs_up row)
                        + (if r = ''up'' then 1 else 0)"
    "thumbs_down row' = (case song_ratings db k of None \<Rightarrow> 0 | Some row \<Rightarrow> thumbs_down row)
                        + (if r = ''up'' then 0 else 1)"
    "artist row' = (case song_ratings db k of None \<Rightarrow> the (Some a) | Some row \<Rightarrow> artist row)"
    "title row' = (case song_ratings db k of None \<Rightarrow> the (Some t) | Some row \<Rightarrow> title row)"
    by blast
  with assms(2) show ?thesis
    by (intro exI [of _ row'] exI [of _ db']) (auto simp: ratings_of_getSongRatings)
qed

theorem addOrUpdateRating_new_vote_witness:
  "user_ratings initDB (''QXJ0aXN0'', ''user_1'') = None \<and> (''up'' = ''up'' \<or> ''up'' = ''down'') \<and>
   (\<exists>row' db'.
      addOrUpdateRating 5 (Some ''QXJ0aXN0'') (Some ''Artist'') (Some ''Title'') (Some ''up'')
          (Some ''user_1'') initDB
        = (Inr (RatingsObj (Row ''QXJ0aXN0'' row')), db') \<and>
      song_ratings db' ''QXJ0aXN0'' = Some row' \<and>
      artist row' = ''Artist'' \<and> title row' = ''Title'' \<and>
      thumbs_up row' = 1 \<and> thumbs_down row' = 0 \<and>
      map_option rating_type (user_ratings db' (''QXJ0aXN0'', ''user_1'')) = Some ''up'')"
proof -
  have h1: "user_ratings initDB (''QXJ0aXN0'', ''user_1'') = None"
    by (simp add: initDB_def)
  have h2: "''up'' = ''up'' \<or> ''up'' = ''down''" by simp
  have h3: "song_ratings initDB ''QXJ0aXN0'' = None" by (simp add: initDB_def)
  from addOrUpdateRating_new_vote [OF h1 h2, of 5 "''Artist''" "''Title''"] h1 h2 h3
  show ?thesis
    by (auto simp: ratings_of_getSongRatings)
qed

text \<open>
  C2. When a vote of \<open>u\<close> on \<open>k\<close> is stored, \<open>addOrUpdateRating\<close> for \<open>k\<close> and \<open>u\<close> returns the
  object with the error \<open>User has already rated this song\<close> and leaves the database as it
  was, whatever the artist, the title and the rating type are; so the counts of \<open>k\<close> are
  the same after the call as before it.
\<close>

theorem addOrUpdateRating_duplicate:
  assumes "user_ratings db (k, u) \<noteq> None"
  shows "addOrUpdateRating now (Some k) a t r (Some u) db
           = (Inr (ErrorObj ''User has already rated this song''), db)"
  using assms by (auto simp: addOrUpdateRating_def select_user_rating_def)

theorem addOrUpdateRating_duplicate_witness:
  "user_ratings one_vote_db (''QXJ0aXN0'', ''user_1'') \<noteq> None \<and>
   addOrUpdateRating 9 (Some ''QXJ0aXN0'') (Some ''Artist'') (Some ''Title'') (Some ''down'')
       (Some ''user_1'') one_vote_db
     = (Inr (ErrorObj ''User has already rated this song''), one_vote_db)"
proof -
  have h: "user_ratings one_vote_db (''QXJ0aXN0'', ''user_1'') \<noteq> None"
    by (simp add: one_vote_db_def)
  from h addOrUpdateRating_duplicate [OF h] show ?thesis by (rule conjI)
qed

text \<open>
  C3. A call of \<open>addOrUpdateRating\<close> that throws a storage error leaves the database as
  it was before the call. For every call, whatever it returns or throws, some count is
  different after the call exactly when some vote is: no count is incremented without
  a vote recorded, and no vote is recorded without a count incremented.
\<close>

theorem addOrUpdateRating_all_or_nothing:
  assumes "addOrUpdateRating now sk a t r uid db = (out, db')"
  shows "(\<forall>e. out = Inl e \<longrightarrow> db' = db) \<and>
         ((\<exists>k. ratings_thumbs_up (getSongRatings (Some k) db')
                  \<noteq> ratings_thumbs_up (getSongRatings (Some k) db) \<or>
               ratings_thumbs_down (getSongRatings (Some k) db')
                  \<noteq> ratings_thumbs_down (getSongRatings (Some k) db))
          \<longleftrightarrow> (\<exists>p. user_ratings db' p \<noteq> user_ratings db p))"
proof (rule conjI)
  show "\<forall>e. out = Inl e \<longrightarrow> db' = db"
    using assms by (auto dest: addOrUpdateRating_error_unchanged)
next
  let ?counts = "\<exists>k. ratings_thumbs_up (getSongRatings (Some k) db')
                  \<noteq> ratings_thumbs_up (getSongRatings (Some k) db) \<or>
               ratings_thumbs_down (getSongRatings (Some k) db')
                  \<noteq> ratings_thumbs_down (getSongRatings (Some k) db)"
  let ?votes = "\<exists>p. user_ratings db' p \<noteq> user_ratings db p"
  show "?counts \<longleftrightarrow> ?votes"
  proof (cases "db' = db")
    case True
    then show ?thesis by simp
  next
    case False
    with addOrUpdateRating_unchanged_or_voted [OF assms]
    obtain k u rt where args: "sk = Some k" "uid = Some u" "r = Some rt"
      and fresh: "user_ratings db (k, u) = None"
      and new: "song_ratings db k = None \<longrightarrow> a \<noteq> None \<and> t \<noteq> None"
      by auto
    have res: "addOrUpdateRating now (Some k) a t (Some rt) (Some u) db = (out, db')"
      using assms unfolding args .
    from new have new': "song_ratings db k = None \<Longrightarrow> a \<noteq> None \<and> t \<noteq> None"
      by simp
    from vote_changes_both [OF fresh new' res]
    have "?counts" and "?votes" by blast+
    then show ?thesis by simp
  qed
qed

theorem addOrUpdateRating_all_or_nothing_witness:
  "fst (addOrUpdateRating 9 (Some ''QXJ0aXN0'') (Some ''Artist'') (Some ''Title'') None
          (Some ''user_2'') one_vote_db) = Inl NotNullConstraint \<and>
   snd (addOrUpdateRating 9 (Some ''QXJ0aXN0'') (Some ''Artist'') (Some ''Title'') None
          (Some ''user_2'') one_vote_db) = one_vote_db"
proof -
  let ?call = "addOrUpdateRating 9 (Some ''QXJ0aXN0'') (Some ''Artist'') (Some ''Title'') None
          (Some ''user_2'') one_vote_db"
  have thrown: "fst ?call = Inl NotNullConstraint"
    by (simp add: null_rating_type_throws)
  have "?call = (fst ?call, snd ?call)" by simp
  from addOrUpdateRating_all_or_nothing [OF this]
  have "\<forall>e. fst ?call = Inl e \<longrightarrow> snd ?call = one_vote_db" by (rule conjunct1)
  with thrown have "snd ?call = one_vote_db" by blast
  with thrown show ?thesis by (rule conjI)
qed

text \<open>
  C10. For a rating type \<open>r\<close> that is a string other than \<open>up\<close>, \<open>sideways\<close> for one, a call
  of \<open>addOrUpdateRating\<close> for a pair of key and user without a vote succeeds: it returns
  the row of the key, in which \<open>thumbs_down\<close> is one higher than before and \<open>thumbs_up\<close> is
  as before, and it records the vote with the string \<open>r\<close> as its type. The store rejects
  no rating type.
\<close>

theorem addOrUpdateRating_other_type:
  assumes "r \<noteq> ''up''" and "user_ratings db (k, u) = None"
  shows "\<exists>row' db'.
    addOrUpdateRating now (Some k) (Some a) (Some t) (Some r) (Some u) db
      = (Inr (RatingsObj (Row k row')), db') \<and>
    song_ratings db' k = Some row' \<and>
    thumbs_down row' = ratings_thumbs_down (getSongRatings (Some k) db) + 1 \<and>
    thumbs_up row' = ratings_thumbs_up (getSongRatings (Some k) db) \<and>
    map_option rating_type (user_ratings db' (k, u)) = Some r"
proof -
  have "song_ratings db k = None \<Longrightarrow> Some a \<noteq> None \<and> Some t \<noteq> None" by simp
  from vote_effect [OF assms(2) this, of now r]
  obtain row' db' where
    "addOrUpdateRating now (Some k) (Some a) (Some t) (Some r) (Some u) db
       = (Inr (RatingsObj (Row k row')), db')"
    "song_ratings db' = (song_ratings db)(k \<mapsto> row')"
    "user_ratings db' = (user_ratings db)((k, u) \<mapsto>
        \<lparr>vote_id = Suc (user_ratings_seq db), rating_type = r, voted_at = now\<rparr>)"
    "thumbs_up row' = (case song_ratings db k of None \<Rightarrow> 0 | Some row \<Rightarrow> thumbs_up row)
                        + (if r = ''up'' then 1 else 0)"
    "thumbs_down row' = (case song_ratings db k of None \<Rightarrow> 0 | Some row \<Rightarrow> thumbs_down row)
                        + (if r = ''up'' then 0 else 1)"
    by blast
  with assms(1) show ?thesis
    by (intro exI [of _ row'] exI [of _ db']) (simp add: ratings_of_getSongRatings)
qed

theorem addOrUpdateRating_other_type_witness:
  "''sideways'' \<noteq> ''up'' \<and> user_ratings initDB (''QXJ0aXN0'', ''user_1'') = None \<and>
   (\<exists>row' db'.
      addOrUpdateRating 5 (Some ''QXJ0aXN0'') (Some ''Artist'') (Some ''Title'')
          (Some ''sideways'') (Some ''user_1'') initDB
        = (Inr (RatingsObj (Row ''QXJ0aXN0'' row')), db') \<and>
      song_ratings db' ''QXJ0aXN0'' = Some row' \<and>
      thumbs_down row' = 1 \<and> thumbs_up row' = 0 \<and>
      map_option rating_type (user_ratings db' (''QXJ0aXN0'', ''user_1'')) = Some ''sideways'')"
proof -
  have h1: "''sideways'' \<noteq> ''up''" by simp
  have h2: "user_ratings initDB (''QXJ0aXN0'', ''user_1'') = None"
    by (simp add: initDB_def)
  have h3: "song_ratings initDB ''QXJ0aXN0'' = None" by (simp add: initDB_def)
  from addOrUpdateRating_other_type [OF h1 h2, of 5 "''Artist''" "''Title''"] h1 h2 h3
  show ?thesis
    by (auto simp: ratings_of_getSongRatings)
qed

subsection \<open>Reading the vote of a user\<close>

text \<open>
  C7. \<open>getUserRating\<close> for \<open>k\<close> and \<open>u\<close> returns \<open>null\<close> in every database that holds no vote
  of \<open>u\<close> on \<open>k\<close>; in the database that a successful call of \<open>addOrUpdateRating\<close> for \<open>k\<close>,
  \<open>u\<close> and the rating type \<open>r\<close> leaves, it returns \<open>r\<close>.
\<close>

theorem getUserRating_before_and_after:
  "(user_ratings db (k, u) = None \<longrightarrow> getUserRating (Some k) (Some u) db = None) \<and>
   (addOrUpdateRating now (Some k) (Some a) (Some t) (Some r) (Some u) db
      = (Inr (RatingsObj x), db') \<longrightarrow> getUserRating (Some k) (Some u) db' = Some r)"
proof (intro conjI impI)
  assume "user_ratings db (k, u) = None"
  then show "getUserRating (Some k) (Some u) db = None"
    by (simp add: getUserRating_def select_user_rating_def)
next
  assume res: "addOrUpdateRating now (Some k) (Some a) (Some t) (Some r) (Some u) db
      = (Inr (RatingsObj x), db')"
  have fresh: "user_ratings db (k, u) = None"
  proof (rule ccontr)
    assume "user_ratings db (k, u) \<noteq> None"
    then have "addOrUpdateRating now (Some k) (Some a) (Some t) (Some r) (Some u) db
           = (Inr (ErrorObj ''User has already rated this song''), db)"
      by (auto simp: addOrUpdateRating_def select_user_rating_def)
    with res show False by simp
  qed
  have "song_ratings db k = None \<Longrightarrow> Some a \<noteq> None \<and> Some t \<noteq> None" by simp
  from vote_effect [OF fresh this, of now r]
  obtain row' db2 where
    res2: "addOrUpdateRating now (Some k) (Some a) (Some t) (Some r) (Some u) db
              = (Inr (RatingsObj (Row k row')), db2)"
    and v2: "user_ratings db2 = (user_ratings db)((k, u) \<mapsto>
        \<lparr>vote_id = Suc (user_ratings_seq db), rating_type = r, voted_at = now\<rparr>)"
    by blast
  have "db2 = db'" using res res2 by simp
  with v2 show "getUserRating (Some k) (Some u) db' = Some r"
    by (simp add: getUserRating_def select_user_rating_def)
qed

theorem getUserRating_before_and_after_witness:
  "user_ratings initDB (''QXJ0aXN0'', ''user_1'') = None \<and>
   getUserRating (Some ''QXJ0aXN0'') (Some ''user_1'') initDB = None \<and>
   addOrUpdateRating 5 (Some ''QXJ0aXN0'') (Some ''Artist'') (Some ''Title'') (Some ''up'')
       (Some ''user_1'') initDB
     = (Inr (RatingsObj (Row ''QXJ0aXN0''
          \<lparr>row_id = 1, artist = ''Artist'', title = ''Title'', thumbs_up = 1, thumbs_down = 0,
           created_at = 5, updated_at = 5\<rparr>)),
        one_vote_db) \<and>
   getUserRating (Some ''QXJ0aXN0'') (Some ''user_1'') one_vote_db = Some ''up''"
proof -
  have h: "user_ratings initDB (''QXJ0aXN0'', ''user_1'') = None"
    by (simp add: initDB_def)
  note both = getUserRating_before_and_after [of initDB "''QXJ0aXN0''" "''user_1''" 5
      "''Artist''" "''Title''" "''up''" "Row ''QXJ0aXN0''
          \<lparr>row_id = 1, artist = ''Artist'', title = ''Title'', thumbs_up = 1, thumbs_down = 0,
           created_at = 5, updated_at = 5\<rparr>" one_vote_db]
  have before: "getUserRating (Some ''QXJ0aXN0'') (Some ''user_1'') initDB = None"
    by (rule both [THEN conjunct1, THEN mp, OF h])
  have after: "getUserRating (Some ''QXJ0aXN0'') (Some ''user_1'') one_vote_db = Some ''up''"
    by (rule both [THEN conjunct2, THEN mp, OF first_vote])
  from h before first_vote after show ?thesis by (intro conjI)
qed

subsection \<open>Sequences of votes\<close>

lemma up_votes_counts:
  assumes "\<forall>v \<in> set vs. user_ratings db (k, voter_id v) = None"
    and "distinct (map voter_id vs)"
  shows "\<exists>outs db'. exec_ops (map (up_vote k) vs) db = (outs, db') \<and>
     length outs = length vs \<and>
     (\<forall>out \<in> set outs. \<exists>x. out = Rated (Inr (RatingsObj x))) \<and>
     ratings_thumbs_up (getSongRatings (Some k) db')
       = ratings_thumbs_up (getSongRatings (Some k) db) + int (length vs) \<and>
     ratings_thumbs_down (getSongRatings (Some k) db')
       = ratings_thumbs_down (getSongRatings (Some k) db)"
  using assms
proof (induction vs arbitrary: db)
  case Nil
  show ?case by simp
next
  case (Cons v vs)
  from Cons.prems(1) have fresh: "user_ratings db (k, voter_id v) = None" by simp
  have "song_ratings db k = None \<Longrightarrow>
          Some (voter_artist v) \<noteq> None \<and> Some (voter_title v) \<noteq> None" by simp
  from vote_effect [OF fresh this, of "voter_time v" "''up''"]
  obtain row' db1 where
    res: "addOrUpdateRating (voter_time v) (Some k) (Some (voter_artist v))
            (Some (voter_title v)) (Some ''up'') (Some (voter_id v)) db
              = (Inr (RatingsObj (Row k row')), db1)"
    and s1: "song_ratings db1 = (song_ratings db)(k \<mapsto> row')"
    and v1: "user_ratings db1 = (user_ratings db)((k, voter_id v) \<mapsto>
        \<lparr>vote_id = Suc (user_ratings_seq db), rating_type = ''up'', voted_at = voter_time v\<rparr>)"
    and up: "thumbs_up row' = (case song_ratings db k of None \<Rightarrow> 0 | Some row \<Rightarrow> thumbs_up row)
                        + (if ''up'' = ''up'' then 1 else 0)"
    and down: "thumbs_down row' = (case song_ratings db k of None \<Rightarrow> 0 | Some row \<Rightarrow> thumbs_down row)
                        + (if ''up'' = ''up'' then 0 else 1)"
    by blast
  have step: "exec_op (up_vote k v) db = (Rated (Inr (RatingsObj (Row k row'))), db1)"
    using res by (simp add: up_vote_def)
  have up1: "ratings_thumbs_up (getSongRatings (Some k) db1)
               = ratings_thumbs_up (getSongRatings (Some k) db) + 1"
    and down1: "ratings_thumbs_down (getSongRatings (Some k) db1)
               = ratings_thumbs_down (getSongRatings (Some k) db)"
    using s1 up down by (simp_all add: ratings_of_getSongRatings)
  have rest_fresh: "\<forall>w \<in> set vs. user_ratings db1 (k, voter_id w) = None"
  proof
    fix w assume w: "w \<in> set vs"
    then have "voter_id w \<in> voter_id ` set vs" by (rule imageI)
    moreover from Cons.prems(2) have "voter_id v \<notin> voter_id ` set vs" by simp
    ultimately have "voter_id w \<noteq> voter_id v" by metis
    with Cons.prems(1) w v1 show "user_ratings db1 (k, voter_id w) = None" by simp
  qed
  have rest_distinct: "distinct (map voter_id vs)"
    using Cons.prems(2) by simp
  from Cons.IH [OF rest_fresh rest_distinct]
  obtain outs db' where
    run: "exec_ops (map (up_vote k) vs) db1 = (outs, db')"
    and len: "length outs = length vs"
    and ok: "\<forall>out \<in> set outs. \<exists>x. out = Rated (Inr (RatingsObj x))"
    and up': "ratings_thumbs_up (getSongRatings (Some k) db')
       = ratings_thumbs_up (getSongRatings (Some k) db1) + int (length vs)"
    and down': "ratings_thumbs_down (getSongRatings (Some k) db')
       = ratings_thumbs_down (getSongRatings (Some k) db1)"
    by blast
  have "exec_ops (map (up_vote k) (v # vs)) db
          = (Rated (Inr (RatingsObj (Row k row'))) # outs, db')"
    using step run by simp
  moreover have "length (Rated (Inr (RatingsObj (Row k row'))) # outs) = length (v # vs)"
    using len by simp
  moreover have "\<forall>out \<in> set (Rated (Inr (RatingsObj (Row k row'))) # outs).
                   \<exists>x. out = Rated (Inr (RatingsObj x))"
    using ok by simp
  moreover have "ratings_thumbs_up (getSongRatings (Some k) db')
       = ratings_thumbs_up (getSongRatings (Some k) db) + int (length (v # vs))"
    using up' up1 by simp
  moreover have "ratings_thumbs_down (getSongRatings (Some k) db')
       = ratings_thumbs_down (getSongRatings (Some k) db)"
    using down' down1 by simp
  ultimately show ?case by blast
qed

text \<open>
  C6. From a database with no row and no vote for the song \<open>k\<close>, a sequence of votes
  \<open>up\<close> on \<open>k\<close> by users with pairwise distinct ids, of any length \<open>N\<close>, runs through: each
  of the \<open>N\<close> calls returns ratings, and afterwards the aggregate of \<open>k\<close> has \<open>thumbs_up = N\<close>
  and \<open>thumbs_down = 0\<close>.
\<close>

theorem distinct_up_votes:
  assumes "song_ratings db k = None"
    and "\<forall>u. user_ratings db (k, u) = None"
    and "distinct (map voter_id vs)"
  shows "\<exists>outs db'. exec_ops (map (up_vote k) vs) db = (outs, db') \<and>
     length outs = length vs \<and>
     (\<forall>out \<in> set outs. \<exists>x. out = Rated (Inr (RatingsObj x))) \<and>
     ratings_thumbs_up (getSongRatings (Some k) db') = int (length vs) \<and>
     ratings_thumbs_down (getSongRatings (Some k) db') = 0"
proof -
  have "\<forall>v \<in> set vs. user_ratings db (k, voter_id v) = None"
    using assms(2) by simp
  from up_votes_counts [OF this assms(3)] assms(1) show ?thesis
    by (simp add: ratings_of_getSongRatings)
qed

theorem distinct_up_votes_witness:
  "(song_ratings initDB ''QXJ0aXN0'' = None \<and>
    (\<forall>u. user_ratings initDB (''QXJ0aXN0'', u) = None) \<and>
    distinct (map voter_id three_voters)) \<and>
   (\<exists>outs db'. exec_ops (map (up_vote ''QXJ0aXN0'') three_voters) initDB = (outs, db') \<and>
     length outs = length three_voters \<and>
     (\<forall>out \<in> set outs. \<exists>x. out = Rated (Inr (RatingsObj x))) \<and>
     ratings_thumbs_up (getSongRatings (Some ''QXJ0aXN0'') db') = int (length three_voters) \<and>
     ratings_thumbs_down (getSongRatings (Some ''QXJ0aXN0'') db') = 0)"
proof -
  have h1: "song_ratings initDB ''QXJ0aXN0'' = None" by (simp add: initDB_def)
  have h2: "\<forall>u. user_ratings initDB (''QXJ0aXN0'', u) = None" by (simp add: initDB_def)
  have h3: "distinct (map voter_id three_voters)" by (simp add: three_voters_def)
  from h1 h2 h3 distinct_up_votes [OF h1 h2 h3] show ?thesis by (intro conjI)
qed

subsection \<open>The counts over the life of the store\<close>

lemma addOrUpdateRating_rows:
  assumes "addOrUpdateRating now sk a t r uid db = (out, db')"
  shows "db' = db \<or>
    (\<exists>k row' up down. song_ratings db' = (song_ratings db)(k \<mapsto> row') \<and>
       thumbs_up row' = (case song_ratings db k of None \<Rightarrow> 0 | Some row \<Rightarrow> thumbs_up row) + up \<and>
       thumbs_down row' = (case song_ratings db k of None \<Rightarrow> 0 | Some row \<Rightarrow> thumbs_down row) + down \<and>
       0 \<le> up \<and> 0 \<le> down)"
proof (cases "db' = db")
  case True
  then show ?thesis by simp
next
  case False
  with addOrUpdateRating_unchanged_or_voted [OF assms]
  obtain k u rt where args: "sk = Some k" "uid = Some u" "r = Some rt"
    and fresh: "user_ratings db (k, u) = None"
    and new: "song_ratings db k = None \<longrightarrow> a \<noteq> None \<and> t \<noteq> None"
    by auto
  from new have new': "song_ratings db k = None \<Longrightarrow> a \<noteq> None \<and> t \<noteq> None"
    by simp
  from vote_effect [OF fresh new', of now rt]
  obtain row' db2 where
    res2: "addOrUpdateRating now (Some k) a t (Some rt) (Some u) db
              = (Inr (RatingsObj (Row k row')), db2)"
    and s2: "song_ratings db2 = (song_ratings db)(k \<mapsto> row')"
    and up: "thumbs_up row' = (case song_ratings db k of None \<Rightarrow> 0 | Some row \<Rightarrow> thumbs_up row)
                        + (if rt = ''up'' then 1 else 0)"
    and down: "thumbs_down row' = (case song_ratings db k of None \<Rightarrow> 0 | Some row \<Rightarrow> thumbs_down row)
                        + (if rt = ''up'' then 0 else 1)"
    by blast
  have "db2 = db'" using assms res2 unfolding args by simp
  with s2 have s: "song_ratings db' = (song_ratings db)(k \<mapsto> row')" by simp
  have "0 \<le> (if rt = ''up'' then 1 else 0 :: int)" "0 \<le> (if rt = ''up'' then 0 else 1 :: int)"
    by simp_all
  with s up down show ?thesis by blast
qed

lemma exec_op_rows:
  "snd (exec_op c db) = db \<or>
    (\<exists>k row' up down. song_ratings (snd (exec_op c db)) = (song_ratings db)(k \<mapsto> row') \<and>
       thumbs_up row' = (case song_ratings db k of None \<Rightarrow> 0 | Some row \<Rightarrow> thumbs_up row) + up \<and>
       thumbs_down row' = (case song_ratings db k of None \<Rightarrow> 0 | Some row \<Rightarrow> thumbs_down row) + down \<and>
       0 \<le> up \<and> 0 \<le> down)"
proof (cases c)
  case (AddOrUpdateRating now sk a t r uid)
  obtain out db' where res: "addOrUpdateRating now sk a t r uid db = (out, db')"
    by (cases "addOrUpdateRating now sk a t r uid db")
  then have "snd (exec_op c db) = db'"
    using AddOrUpdateRating by simp
  with addOrUpdateRating_rows [OF res] show ?thesis by simp
qed simp_all

lemma exec_op_monotone:
  assumes "song_ratings db k = Some row"
  shows "\<exists>row'. song_ratings (snd (exec_op c db)) k = Some row' \<and>
           thumbs_up row \<le> thumbs_up row' \<and> thumbs_down row \<le> thumbs_down row'"
  using exec_op_rows [of c db] assms
  by (auto simp: fun_upd_def)

lemma exec_op_nonneg:
  assumes "\<forall>k row. song_ratings db k = Some row \<longrightarrow> 0 \<le> thumbs_up row \<and> 0 \<le> thumbs_down row"
  shows "\<forall>k row. song_ratings (snd (exec_op c db)) k = Some row
            \<longrightarrow> 0 \<le> thumbs_up row \<and> 0 \<le> thumbs_down row"
  using exec_op_rows [of c db] assms
  by (auto simp: fun_upd_def split: option.splits if_splits)

lemma reachable_nonneg:
  "reachable db \<Longrightarrow>
     \<forall>k row. song_ratings db k = Some row \<longrightarrow> 0 \<le> thumbs_up row \<and> 0 \<le> thumbs_down row"
proof (induction rule: reachable.induct)
  case fresh
  show ?case by (simp add: initDB_def)
next
  case (step db c)
  from step.IH show ?case by (rule exec_op_nonneg)
qed

lemma reachable_one_vote_db: "reachable one_vote_db"
proof -
  have "reachable (snd (exec_op (AddOrUpdateRating 5 (Some ''QXJ0aXN0'') (Some ''Artist'')
          (Some ''Title'') (Some ''up'') (Some ''user_1'')) initDB))"
    by (rule reachable.step [OF reachable.fresh])
  then show ?thesis by (simp add: first_vote)
qed

text \<open>
  C8. In every database that the store can reach from the fresh one, the counts of
  every row are not negative; and whatever operation runs next (\<open>getSongRatings\<close>,
  \<open>addOrUpdateRating\<close> or \<open>getUserRating\<close>, with any arguments), every row is still there
  afterwards with counts that are at least what they were.
\<close>

theorem counts_only_increase:
  assumes "reachable db"
  shows "(\<forall>k row. song_ratings db k = Some row \<longrightarrow> 0 \<le> thumbs_up row \<and> 0 \<le> thumbs_down row) \<and>
         (\<forall>c k row. song_ratings db k = Some row \<longrightarrow>
            (\<exists>row'. song_ratings (snd (exec_op c db)) k = Some row' \<and>
               thumbs_up row \<le> thumbs_up row' \<and> thumbs_down row \<le> thumbs_down row'))"
  using reachable_nonneg [OF assms] exec_op_monotone by blast

theorem counts_only_increase_witness:
  "reachable one_vote_db \<and>
   (\<exists>row. song_ratings one_vote_db ''QXJ0aXN0'' = Some row \<and>
      0 \<le> thumbs_up row \<and> 0 \<le> thumbs_down row) \<and>
   (\<exists>row row'. song_ratings one_vote_db ''QXJ0aXN0'' = Some row \<and>
      song_ratings (snd (exec_op (AddOrUpdateRating 9 (Some ''QXJ0aXN0'') (Some ''Artist'')
          (Some ''Title'') (Some ''down'') (Some ''user_2'')) one_vote_db)) ''QXJ0aXN0''
        = Some row' \<and>
      thumbs_up row \<le> thumbs_up row' \<and> thumbs_down row \<le> thumbs_down row')"
proof -
  have row: "song_ratings one_vote_db ''QXJ0aXN0'' = Some
      \<lparr>row_id = 1, artist = ''Artist'', title = ''Title'', thumbs_up = 1, thumbs_down = 0,
       created_at = 5, updated_at = 5\<rparr>"
    by (simp add: one_vote_db_def)
  note inv = counts_only_increase [OF reachable_one_vote_db]
  from inv row have nonneg: "\<exists>row. song_ratings one_vote_db ''QXJ0aXN0'' = Some row \<and>
      0 \<le> thumbs_up row \<and> 0 \<le> thumbs_down row"
    by blast
  from inv row have mono: "\<exists>row row'. song_ratings one_vote_db ''QXJ0aXN0'' = Some row \<and>
      song_ratings (snd (exec_op (AddOrUpdateRating 9 (Some ''QXJ0aXN0'') (Some ''Artist'')
          (Some ''Title'') (Some ''down'') (Some ''user_2'')) one_vote_db)) ''QXJ0aXN0''
        = Some row' \<and>
      thumbs_up row \<le> thumbs_up row' \<and> thumbs_down row \<le> thumbs_down row'"
    by blast
  from reachable_one_vote_db nonneg mono show ?thesis by (intro conjI)
qed

section \<open>Properties of the rating API\<close>

text \<open>A request with five strings, of which the rating type is \<open>up\<close>, reaches the store.\<close>

lemma post_ratings_delegates:
  "post_ratings (recording_store (RatingsObj (Counts 1 0)))
       (Some \<lparr>body_songKey = JStr ''QXJ0aXN0'', body_artist = JStr ''Artist'',
        body_title = JStr ''Title'', body_ratingType = JStr ''up'',
        body_userId = JStr ''user_1''\<rparr>) []
     = (\<lparr>status = 200, json = ReplyJson (RatingsObj (Counts 1 0))\<rparr>,
        [[JStr ''QXJ0aXN0'', JStr ''Artist'', JStr ''Title'', JStr ''up'', JStr ''user_1'']])"
  by (simp add: post_ratings_def recording_store_def)

text \<open>
  A request whose body was parsed: when one of the five fields is missing (or falsy in
  another way), or the rating type is neither the string \<open>up\<close> nor the string \<open>down\<close>, the
  handler answers with status 400 and a message that names the fault, and the state of
  the store is what it was. The answer and the state are the same for every store
  function: the store is not called.
\<close>

lemma post_ratings_rejects_parsed:
  assumes "\<not> truthy (body_songKey b) \<or> \<not> truthy (body_artist b) \<or> \<not> truthy (body_title b) \<or>
           \<not> truthy (body_ratingType b) \<or> \<not> truthy (body_userId b) \<or>
           (body_ratingType b \<noteq> JStr ''up'' \<and> body_ratingType b \<noteq> JStr ''down'')"
  shows "post_ratings store (Some b) st =
           (\<lparr>status = 400,
             json = ErrorJson
               (if truthy (body_songKey b) \<and> truthy (body_artist b) \<and> truthy (body_title b) \<and>
                   truthy (body_ratingType b) \<and> truthy (body_userId b)
                then ''Invalid rating type'' else ''Missing required fields'')\<rparr>,
            st)"
  using assms by (auto simp: post_ratings_def)

lemma post_ratings_sideways:
  "post_ratings (recording_store (RatingsObj (Counts 1 0)))
       (Some \<lparr>body_songKey = JStr ''QXJ0aXN0'', body_artist = JStr ''Artist'',
        body_title = JStr ''Title'', body_ratingType = JStr ''sideways'',
        body_userId = JStr ''user_1''\<rparr>) []
     = (\<lparr>status = 400, json = ErrorJson ''Invalid rating type''\<rparr>, [])"
  using post_ratings_rejects_parsed [of "\<lparr>body_songKey = JStr ''QXJ0aXN0'',
        body_artist = JStr ''Artist'', body_title = JStr ''Title'',
        body_ratingType = JStr ''sideways'', body_userId = JStr ''user_1''\<rparr>"
        "recording_store (RatingsObj (Counts 1 0))" "[]"]
  by simp

lemma post_ratings_missing_userId:
  "post_ratings (recording_store (RatingsObj (Counts 1 0)))
       (Some \<lparr>body_songKey = JStr ''QXJ0aXN0'', body_artist = JStr ''Artist'',
        body_title = JStr ''Title'', body_ratingType = JStr ''up'',
        body_userId = JUndefined\<rparr>) []
     = (\<lparr>status = 400, json = ErrorJson ''Missing required fields''\<rparr>, [])"
  using post_ratings_rejects_parsed [of "\<lparr>body_songKey = JStr ''QXJ0aXN0'',
        body_artist = JStr ''Artist'', body_title = JStr ''Title'',
        body_ratingType = JStr ''up'', body_userId = JUndefined\<rparr>"
        "recording_store (RatingsObj (Counts 1 0))" "[]"]
  by simp

text \<open>
  C4. The claim asks for a client-error status and a descriptive message for every
  request in which a field is missing. A request without a parsed body has all five
  fields missing, and the handler does not reach its check of the fields: it answers
  with status 500 and the message of the \<open>TypeError\<close>, for every store function and
  leaving the state of the store as it was. So the store is not called, as the claim
  says, but the status is the one of a server error.
\<close>

theorem post_ratings_without_body:
  "post_ratings store None st = (\<lparr>status = 500, json = ErrorJson destructure_error\<rparr>, st)"
  by (simp add: post_ratings_def)

theorem post_ratings_without_body_witness:
  "post_ratings (recording_store (RatingsObj (Counts 1 0))) None []
     = (\<lparr>status = 500, json = ErrorJson destructure_error\<rparr>, [])"
  by (rule post_ratings_without_body)

end
